theory Spec2Isabelle
  imports Complex_Main
begin

section \<open>The dependency risk scorer \<open>analyzeDependencies\<close>\<close>

text \<open>
  A shallow embedding of the tool \<open>analyzeDependencies\<close> (file \<open>analyzeDependencies.ts\<close>):
  the catalog \<open>heavyPackagesList\<close> and the function \<open>execute\<close>, which parses a manifest
  text, merges its \<open>dependencies\<close> and \<open>devDependencies\<close> by object spread, scans the
  merged keys against the catalog, classifies the summed weight and derives five flags.

  The code is JavaScript, so the model writes out what the language does at the places
  the code relies on it: property lookup on an object literal also finds the members of
  \<open>Object.prototype\<close>; a missing field is \<open>undefined\<close> and \<open>n + undefined\<close> is \<open>NaN\<close>;
  every comparison with \<open>NaN\<close> is false; object spread copies own enumerable properties
  and a later spread overwrites the value of an existing key in place; \<open>Object.keys\<close>
  lists array-index keys first, in ascending order, then the other keys in creation order.
\<close>

subsection \<open>Values\<close>

text \<open>
  A value returned by \<open>JSON.parse\<close>. An object carries its members in the order of the
  text; \<open>object_props\<close> below turns them into properties as \<open>JSON.parse\<close> does. The scorer
  never inspects a number, so the payload of \<open>JNumber\<close> only keeps numbers apart.
  Strings are lists of 8-bit characters.
\<close>

datatype json =
    JNull
  | JBool bool
  | JNumber real
  | JString string
  | JArray "json list"
  | JObject "(string \<times> json) list"

text \<open>
  The numbers the scorer computes with: sums of the catalog's integer weights, and
  \<open>NaN\<close>. A double holds every integer up to \<open>2^53\<close> exactly, and no weight exceeds
  10, so the sums are exact for any manifest of fewer than \<open>2^49\<close> keys.
\<close>

datatype jsnum = Num int | NaN

datatype js_error = SyntaxError | TypeError

fun js_add :: "jsnum \<Rightarrow> jsnum \<Rightarrow> jsnum" where
  "js_add (Num a) (Num b) = Num (a + b)"
| "js_add _ _ = NaN"

fun js_le :: "jsnum \<Rightarrow> jsnum \<Rightarrow> bool" where
  "js_le (Num a) (Num b) = (a \<le> b)"
| "js_le _ _ = False"

fun js_lt :: "jsnum \<Rightarrow> jsnum \<Rightarrow> bool" where
  "js_lt (Num a) (Num b) = (a < b)"
| "js_lt _ _ = False"

text \<open>\<open>a == b\<close> on numbers: \<open>NaN\<close> equals nothing, itself included.\<close>

fun js_eq :: "jsnum \<Rightarrow> jsnum \<Rightarrow> bool" where
  "js_eq (Num a) (Num b) = (a = b)"
| "js_eq _ _ = False"

text \<open>\<open>ToNumber\<close> of a field that may be \<open>undefined\<close> (\<open>None\<close>).\<close>

fun ToNumber :: "jsnum option \<Rightarrow> jsnum" where
  "ToNumber None = NaN"
| "ToNumber (Some n) = n"

text \<open>A property key made from a field that may be \<open>undefined\<close>.\<close>

fun ToPropertyKey :: "string option \<Rightarrow> string" where
  "ToPropertyKey None = ''undefined''"
| "ToPropertyKey (Some s) = s"

text \<open>\<open>x || 0\<close> for a number or \<open>undefined\<close>: the falsy values are \<open>undefined\<close>, \<open>0\<close> and \<open>NaN\<close>.\<close>

fun or_zero :: "jsnum option \<Rightarrow> jsnum" where
  "or_zero None = Num 0"
| "or_zero (Some NaN) = Num 0"
| "or_zero (Some (Num n)) = (if n = 0 then Num 0 else Num n)"

subsection \<open>Objects: properties in creation order\<close>

text \<open>
  An object is the list of its own properties in creation order. \<open>set_prop\<close> is the
  assignment \<open>o[k] = v\<close> (and \<open>CreateDataProperty\<close>): an existing key keeps its place
  and takes the new value, a new key goes to the end.
\<close>

fun set_prop :: "string \<Rightarrow> 'v \<Rightarrow> (string \<times> 'v) list \<Rightarrow> (string \<times> 'v) list" where
  "set_prop k v [] = [(k, v)]"
| "set_prop k v (p # ps) = (if fst p = k then (k, v) # ps else p # set_prop k v ps)"

definition set_props :: "(string \<times> 'v) list \<Rightarrow> (string \<times> 'v) list \<Rightarrow> (string \<times> 'v) list" where
  "set_props kvs target = fold (\<lambda>kv. set_prop (fst kv) (snd kv)) kvs target"

text \<open>The properties of a parsed object: a repeated member name overwrites.\<close>

definition object_props :: "(string \<times> json) list \<Rightarrow> (string \<times> json) list" where
  "object_props members = set_props members []"

text \<open>
  Array indices: the canonical decimal strings of the integers below \<open>2^32 - 1\<close>.
\<close>

definition is_digit :: "char \<Rightarrow> bool" where
  "is_digit c = (c \<in> set ''0123456789'')"

definition digit_value :: "char \<Rightarrow> nat" where
  "digit_value c = of_char c - 48"

definition index_value :: "string \<Rightarrow> nat" where
  "index_value k = foldl (\<lambda>a c. 10 * a + digit_value c) 0 k"

definition is_array_index :: "string \<Rightarrow> bool" where
  "is_array_index k =
     (k \<noteq> [] \<and> list_all is_digit k \<and> (k = ''0'' \<or> hd k \<noteq> CHR ''0'') \<and>
      index_value k < 4294967295)"

text \<open>
  The own properties in the order of \<open>[[OwnPropertyKeys]]\<close>: array indices ascending,
  then the other keys in creation order. \<open>Object.keys\<close> lists the keys in that order.
\<close>

definition own_entries :: "(string \<times> 'v) list \<Rightarrow> (string \<times> 'v) list" where
  "own_entries ps =
     sort_key (\<lambda>p. index_value (fst p)) (filter (\<lambda>p. is_array_index (fst p)) ps) @
     filter (\<lambda>p. \<not> is_array_index (fst p)) ps"

definition Object_keys :: "(string \<times> 'v) list \<Rightarrow> string list" where
  "Object_keys ps = map fst (own_entries ps)"

text \<open>The decimal string of an index.\<close>

function dec_string :: "nat \<Rightarrow> string" where
  "dec_string n =
     (if n < 10 then [char_of (48 + n)]
      else dec_string (n div 10) @ [char_of (48 + n mod 10)])"
  by pat_completeness auto
termination
  by (relation "measure id") auto

declare dec_string.simps [simp del]

text \<open>
  The own enumerable properties that a spread \<open>{...v}\<close> copies from a parsed value:
  those of an object, the elements of an array and the characters of a string under
  their indices, and nothing for \<open>null\<close>, a boolean or a number.
\<close>

fun enumerable_own :: "json \<Rightarrow> (string \<times> json) list" where
  "enumerable_own (JObject members) = own_entries (object_props members)"
| "enumerable_own (JArray xs) = zip (map dec_string [0..<length xs]) xs"
| "enumerable_own (JString s) =
     zip (map dec_string [0..<length s]) (map (\<lambda>c. JString [c]) s)"
| "enumerable_own JNull = []"
| "enumerable_own (JBool b) = []"
| "enumerable_own (JNumber n) = []"

text \<open>\<open>{...target, ...src}\<close>, with \<open>None\<close> for a source that is \<open>undefined\<close>.\<close>

definition spread :: "json option \<Rightarrow> (string \<times> json) list \<Rightarrow> (string \<times> json) list" where
  "spread src target =
     (case src of None \<Rightarrow> target | Some v \<Rightarrow> set_props (enumerable_own v) target)"

text \<open>
  The member access \<open>pkg.k\<close>, used for the names \<open>dependencies\<close> and
  \<open>devDependencies\<close>, which no prototype defines: it throws on \<open>null\<close>, reads an own
  property of an object, and is \<open>undefined\<close> on a boolean, number, string or array.
\<close>

fun get_prop :: "json \<Rightarrow> string \<Rightarrow> js_error + json option" where
  "get_prop JNull k = Inl TypeError"
| "get_prop (JObject members) k = Inr (map_of (object_props members) k)"
| "get_prop (JBool b) k = Inr None"
| "get_prop (JNumber n) k = Inr None"
| "get_prop (JString s) k = Inr None"
| "get_prop (JArray xs) k = Inr None"

subsection \<open>The catalog\<close>

definition heavyPackagesList :: "(string \<times> int \<times> string) list" where
  "heavyPackagesList =
    [(''tensorflow'', 10, ''AI/ML''),
     (''@tensorflow/tfjs'', 8, ''AI/ML''),
     (''torch'', 10, ''AI/ML''),
     (''opencv'', 9, ''Computer Vision''),
     (''mediapipe'', 8, ''Computer Vision''),
     (''puppeteer'', 8, ''Browser Automation''),
     (''playwright'', 8, ''Browser Automation''),
     (''selenium-webdriver'', 7, ''Browser Automation''),
     (''sharp'', 7, ''Image Processing''),
     (''jimp'', 5, ''Image Processing''),
     (''canvas'', 6, ''Image Processing''),
     (''ffmpeg'', 9, ''Video Processing''),
     (''node-ffmpeg'', 9, ''Video Processing''),
     (''mysql2'', 4, ''Database''),
     (''pg'', 4, ''Database''),
     (''mongodb'', 5, ''Database''),
     (''redis'', 4, ''Database''),
     (''elasticsearch'', 6, ''Database''),
     (''webpack'', 5, ''Build Tools''),
     (''vite'', 4, ''Build Tools''),
     (''rollup'', 4, ''Build Tools''),
     (''parcel'', 4, ''Build Tools''),
     (''next'', 5, ''Framework''),
     (''nuxt'', 5, ''Framework''),
     (''electron'', 7, ''Desktop''),
     (''bcrypt'', 4, ''Crypto''),
     (''crypto'', 3, ''Crypto''),
     (''argon2'', 4, ''Crypto''),
     (''pdf-parse'', 4, ''File Processing''),
     (''xlsx'', 4, ''File Processing''),
     (''archiver'', 3, ''File Processing''),
     (''jest'', 3, ''Testing''),
     (''cypress'', 6, ''Testing''),
     (''@storybook/react'', 5, ''Testing'')]"

text \<open>
  \<open>heavyPackagesList\<close> is an object literal, so its prototype is \<open>Object.prototype\<close>
  and \<open>heavyPackagesList[pkgName]\<close> also finds the members every object inherits.
  Each of them is a function or an object: truthy, with no \<open>weight\<close> and no \<open>category\<close>.
\<close>

definition Object_prototype_names :: "string list" where
  "Object_prototype_names =
    [''constructor'', ''__defineGetter__'', ''__defineSetter__'', ''hasOwnProperty'',
     ''__lookupGetter__'', ''__lookupSetter__'', ''isPrototypeOf'',
     ''propertyIsEnumerable'', ''toString'', ''valueOf'', ''__proto__'',
     ''toLocaleString'']"

datatype catalog_value = Entry int string | Inherited

text \<open>\<open>heavyPackagesList[pkgName]\<close>; \<open>None\<close> is \<open>undefined\<close>, the only falsy result.\<close>

definition heavy_lookup :: "string \<Rightarrow> catalog_value option" where
  "heavy_lookup pkgName =
     (case map_of heavyPackagesList pkgName of
        Some (w, c) \<Rightarrow> Some (Entry w c)
      | None \<Rightarrow> if pkgName \<in> set Object_prototype_names then Some Inherited else None)"

fun weight_field :: "catalog_value \<Rightarrow> jsnum option" where
  "weight_field (Entry w c) = Some (Num w)"
| "weight_field Inherited = None"

fun category_field :: "catalog_value \<Rightarrow> string option" where
  "category_field (Entry w c) = Some c"
| "category_field Inherited = None"

subsection \<open>The report\<close>

datatype risk = LOW | MEDIUM | HIGH | CRITICAL

record analysis_flags =
  hasBrowserAutomation :: bool
  hasAI :: bool
  hasImageProcessing :: bool
  hasVideoProcessing :: bool
  hasDatabase :: bool
  totalDependencies :: nat

text \<open>
  The three variables the scan loop updates; the report extends them with the risk
  level and the flags.
\<close>

record scan =
  heavyPackages :: "string list"
  totalWeight :: jsnum
  categories :: "(string \<times> jsnum) list"

record report = scan +
  riskLevel :: risk
  analysis :: analysis_flags

subsection \<open>\<open>execute\<close>\<close>

text \<open>One round of the \<open>forEach\<close> over the merged keys.\<close>

definition scan_step :: "string \<Rightarrow> scan \<Rightarrow> scan" where
  "scan_step pkgName st =
     (case heavy_lookup pkgName of
        None \<Rightarrow> st
      | Some e \<Rightarrow>
          (let weight = weight_field e;
               category = ToPropertyKey (category_field e)
           in \<lparr> heavyPackages = heavyPackages st @ [pkgName],
                totalWeight = js_add (totalWeight st) (ToNumber weight),
                categories =
                  set_prop category
                    (js_add (or_zero (map_of (categories st) category)) (ToNumber weight))
                    (categories st) \<rparr>))"

definition scan_init :: scan where
  "scan_init = \<lparr> heavyPackages = [], totalWeight = Num 0, categories = [] \<rparr>"

definition classify :: "jsnum \<Rightarrow> risk" where
  "classify w =
     (if js_le w (Num 5) then LOW
      else if js_le w (Num 15) then MEDIUM
      else if js_le w (Num 30) then HIGH
      else CRITICAL)"

definition browser_names :: "string list" where
  "browser_names = [''puppeteer'', ''playwright'', ''selenium-webdriver'']"

definition ai_names :: "string list" where
  "ai_names = [''tensorflow'', ''@tensorflow/tfjs'', ''torch'', ''opencv'', ''mediapipe'']"

definition image_names :: "string list" where
  "image_names = [''sharp'', ''jimp'', ''canvas'']"

definition video_names :: "string list" where
  "video_names = [''ffmpeg'', ''node-ffmpeg'']"

definition database_names :: "string list" where
  "database_names = [''mysql2'', ''pg'', ''mongodb'', ''redis'', ''elasticsearch'']"

text \<open>\<open>heavyPackages.some(pkg => names.includes(pkg))\<close>\<close>

definition some_includes :: "string list \<Rightarrow> string list \<Rightarrow> bool" where
  "some_includes heavy names = list_ex (\<lambda>pkg. pkg \<in> set names) heavy"

text \<open>
  The \<open>try\<close> block after the merge: from \<open>allDeps\<close> to the returned object.
  \<open>allDeps\<close> is an object, hence truthy, so \<open>allDeps || {}\<close> is \<open>allDeps\<close>.
\<close>

definition score :: "(string \<times> json) list \<Rightarrow> report" where
  "score allDeps =
     (let st = fold scan_step (Object_keys allDeps) scan_init
      in \<lparr> heavyPackages = heavyPackages st,
           totalWeight = totalWeight st,
           categories = categories st,
           riskLevel = classify (totalWeight st),
           analysis =
             \<lparr> hasBrowserAutomation = some_includes (heavyPackages st) browser_names,
               hasAI = some_includes (heavyPackages st) ai_names,
               hasImageProcessing = some_includes (heavyPackages st) image_names,
               hasVideoProcessing = some_includes (heavyPackages st) video_names,
               hasDatabase = some_includes (heavyPackages st) database_names,
               totalDependencies = length (Object_keys allDeps) \<rparr> \<rparr>)"

text \<open>\<open>const allDeps = { ...pkg.dependencies, ...pkg.devDependencies }\<close>\<close>

definition merge_deps :: "json \<Rightarrow> js_error + (string \<times> json) list" where
  "merge_deps pkg =
     (case get_prop pkg ''dependencies'' of
        Inl e \<Rightarrow> Inl e
      | Inr dependencies \<Rightarrow>
          (case get_prop pkg ''devDependencies'' of
             Inl e \<Rightarrow> Inl e
           | Inr devDependencies \<Rightarrow> Inr (spread devDependencies (spread dependencies []))))"

text \<open>The report of the \<open>catch\<close> branch.\<close>

definition default_report :: report where
  "default_report =
     \<lparr> heavyPackages = [], totalWeight = Num 0, categories = [], riskLevel = LOW,
       analysis =
         \<lparr> hasBrowserAutomation = False, hasAI = False, hasImageProcessing = False,
           hasVideoProcessing = False, hasDatabase = False, totalDependencies = 0 \<rparr> \<rparr>"

text \<open>
  \<open>execute\<close>: the \<open>try\<close> block, and the \<open>catch\<close> branch for whatever it throws.
  \<open>JSON.parse\<close> belongs to the language, not to the repository; it is a parameter.
\<close>

definition try_block :: "(string \<Rightarrow> js_error + json) \<Rightarrow> string \<Rightarrow> js_error + report" where
  "try_block JSON_parse packageJson =
     (case JSON_parse packageJson of
        Inl e \<Rightarrow> Inl e
      | Inr pkg \<Rightarrow>
          (case merge_deps pkg of
             Inl e \<Rightarrow> Inl e
           | Inr allDeps \<Rightarrow> Inr (score allDeps)))"

definition execute :: "(string \<Rightarrow> js_error + json) \<Rightarrow> string \<Rightarrow> report" where
  "execute JSON_parse packageJson =
     (case try_block JSON_parse packageJson of
        Inl e \<Rightarrow> default_report
      | Inr r \<Rightarrow> r)"

subsection \<open>Notions used to state the properties\<close>

text \<open>The test \<open>if (heavyPackagesList[pkgName])\<close> of the scan loop.\<close>

definition listed :: "string \<Rightarrow> bool" where
  "listed pkgName = (heavy_lookup pkgName \<noteq> None)"

text \<open>A key that the test accepts although the catalog has no entry for it.\<close>

definition inherited :: "string \<Rightarrow> bool" where
  "inherited pkgName = (heavy_lookup pkgName = Some Inherited)"

text \<open>What one key adds to \<open>totalWeight\<close>.\<close>

definition key_weight :: "string \<Rightarrow> jsnum" where
  "key_weight pkgName =
     (case heavy_lookup pkgName of None \<Rightarrow> Num 0 | Some e \<Rightarrow> ToNumber (weight_field e))"

text \<open>The weight of a catalog entry, and 0 for a name without one.\<close>

definition catalog_weight :: "string \<Rightarrow> int" where
  "catalog_weight pkgName =
     (case map_of heavyPackagesList pkgName of None \<Rightarrow> 0 | Some (w, c) \<Rightarrow> w)"

text \<open>The catalog's names of one category.\<close>

definition category_names :: "string \<Rightarrow> string list" where
  "category_names c = map fst (filter (\<lambda>e. snd (snd e) = c) heavyPackagesList)"

text \<open>The sum over the values of a \<open>categories\<close> object.\<close>

fun sum_values :: "(string \<times> jsnum) list \<Rightarrow> jsnum" where
  "sum_values [] = Num 0"
| "sum_values (p # ps) = js_add (snd p) (sum_values ps)"

subsection \<open>Sample manifests\<close>

text \<open>
  Manifest texts and the values \<open>JSON.parse\<close> returns for them. \<open>JSON_parse_sample\<close>
  stands for \<open>JSON.parse\<close> in the examples: it agrees with it on the texts listed here
  and throws on every other text, so the examples use it on the listed texts and on
  texts that are no JSON.
\<close>

definition scenario_text :: string where
  "scenario_text =
     ''{\"dependencies\":{\"tensorflow\":\"^1\",\"sharp\":\"^1\"},\"devDependencies\":{\"jest\":\"^1\"}}''"

definition scenario_pkg :: json where
  "scenario_pkg =
     JObject
       [(''dependencies'',
         JObject [(''tensorflow'', JString ''^1''), (''sharp'', JString ''^1'')]),
        (''devDependencies'', JObject [(''jest'', JString ''^1'')])]"

definition puppeteer_text :: string where
  "puppeteer_text =
     ''{\"dependencies\":{\"puppeteer\":\"^1.0\",\"left-pad\":\"^1.0\"},\"devDependencies\":{}}''"

definition puppeteer_pkg :: json where
  "puppeteer_pkg =
     JObject
       [(''dependencies'',
         JObject [(''puppeteer'', JString ''^1.0''), (''left-pad'', JString ''^1.0'')]),
        (''devDependencies'', JObject [])]"

definition puppeteer_sharp_text :: string where
  "puppeteer_sharp_text =
     ''{\"dependencies\":{\"puppeteer\":\"^1.0\",\"left-pad\":\"^1.0\",\"sharp\":\"^1\"},\"devDependencies\":{}}''"

definition puppeteer_sharp_pkg :: json where
  "puppeteer_sharp_pkg =
     JObject
       [(''dependencies'',
         JObject [(''puppeteer'', JString ''^1.0''), (''left-pad'', JString ''^1.0''),
                  (''sharp'', JString ''^1'')]),
        (''devDependencies'', JObject [])]"

definition both_sets_text :: string where
  "both_sets_text =
     ''{\"dependencies\":{\"jest\":\"^28\"},\"devDependencies\":{\"jest\":\"^29\"}}''"

definition both_sets_pkg :: json where
  "both_sets_pkg =
     JObject
       [(''dependencies'', JObject [(''jest'', JString ''^28'')]),
        (''devDependencies'', JObject [(''jest'', JString ''^29'')])]"

definition constructor_text :: string where
  "constructor_text = ''{\"dependencies\":{\"constructor\":\"^1.0.0\"}}''"

definition constructor_pkg :: json where
  "constructor_pkg =
     JObject [(''dependencies'', JObject [(''constructor'', JString ''^1.0.0'')])]"

text \<open>A manifest of total weight \<open>w\<close> for each boundary of the risk table.\<close>

definition weight5_text :: string where
  "weight5_text = ''{\"dependencies\":{\"jimp\":\"^1\"}}''"

definition weight5_pkg :: json where
  "weight5_pkg = JObject [(''dependencies'', JObject [(''jimp'', JString ''^1'')])]"

definition weight6_text :: string where
  "weight6_text = ''{\"dependencies\":{\"canvas\":\"^1\"}}''"

definition weight6_pkg :: json where
  "weight6_pkg = JObject [(''dependencies'', JObject [(''canvas'', JString ''^1'')])]"

definition weight15_text :: string where
  "weight15_text = ''{\"dependencies\":{\"tensorflow\":\"^1\",\"mongodb\":\"^1\"}}''"

definition weight15_pkg :: json where
  "weight15_pkg =
     JObject
       [(''dependencies'',
         JObject [(''tensorflow'', JString ''^1''), (''mongodb'', JString ''^1'')])]"

definition weight16_text :: string where
  "weight16_text = ''{\"dependencies\":{\"tensorflow\":\"^1\",\"canvas\":\"^1\"}}''"

definition weight16_pkg :: json where
  "weight16_pkg =
     JObject
       [(''dependencies'',
         JObject [(''tensorflow'', JString ''^1''), (''canvas'', JString ''^1'')])]"

definition weight30_text :: string where
  "weight30_text =
     ''{\"dependencies\":{\"tensorflow\":\"^1\",\"torch\":\"^1\"},\"devDependencies\":{\"webpack\":\"^1\",\"next\":\"^1\"}}''"

definition weight30_pkg :: json where
  "weight30_pkg =
     JObject
       [(''dependencies'',
         JObject [(''tensorflow'', JString ''^1''), (''torch'', JString ''^1'')]),
        (''devDependencies'',
         JObject [(''webpack'', JString ''^1''), (''next'', JString ''^1'')])]"

definition weight31_text :: string where
  "weight31_text =
     ''{\"dependencies\":{\"tensorflow\":\"^1\",\"torch\":\"^1\"},\"devDependencies\":{\"@tensorflow/tfjs\":\"^1\",\"jest\":\"^1\"}}''"

definition weight31_pkg :: json where
  "weight31_pkg =
     JObject
       [(''dependencies'',
         JObject [(''tensorflow'', JString ''^1''), (''torch'', JString ''^1'')]),
        (''devDependencies'',
         JObject [(''@tensorflow/tfjs'', JString ''^1''), (''jest'', JString ''^1'')])]"

definition sample_table :: "(string \<times> json) list" where
  "sample_table =
     [(scenario_text, scenario_pkg),
      (puppeteer_text, puppeteer_pkg),
      (puppeteer_sharp_text, puppeteer_sharp_pkg),
      (both_sets_text, both_sets_pkg),
      (constructor_text, constructor_pkg),
      (weight5_text, weight5_pkg),
      (weight6_text, weight6_pkg),
      (weight15_text, weight15_pkg),
      (weight16_text, weight16_pkg),
      (weight30_text, weight30_pkg),
      (weight31_text, weight31_pkg)]"

definition JSON_parse_sample :: "string \<Rightarrow> js_error + json" where
  "JSON_parse_sample packageJson =
     (case map_of sample_table packageJson of
        None \<Rightarrow> Inl SyntaxError
      | Some pkg \<Rightarrow> Inr pkg)"

section \<open>Properties\<close>

subsection \<open>A manifest that does not parse\<close>

lemma execute_parsed:
  "JSON_parse packageJson = Inr pkg \<Longrightarrow>
   execute JSON_parse packageJson =
     (case merge_deps pkg of Inl e \<Rightarrow> default_report | Inr allDeps \<Rightarrow> score allDeps)"
  by (simp add: execute_def try_block_def split: sum.splits)

lemma execute_throws:
  "JSON_parse packageJson = Inl e \<Longrightarrow> execute JSON_parse packageJson = default_report"
  by (simp add: execute_def try_block_def)

text \<open>
  The text \<open>null\<close> parses, and the member access on its value throws: the \<open>catch\<close>
  branch answers that as well.
\<close>

lemma null_manifest_gives_default_report:
  "JSON_parse packageJson = Inr JNull \<Longrightarrow> execute JSON_parse packageJson = default_report"
  by (simp add: execute_def try_block_def merge_deps_def)

text \<open>
  Claim C1. When \<open>JSON.parse\<close> throws on the manifest text, \<open>execute\<close> does not throw
  and returns the default report: no heavy packages, total weight 0, no categories,
  risk level \<open>LOW\<close>, the five flags false and \<open>totalDependencies = 0\<close>.
\<close>

theorem unparsable_manifest_gives_default_report:
  assumes "JSON_parse packageJson = Inl e"
  shows "execute JSON_parse packageJson =
           \<lparr> heavyPackages = [], totalWeight = Num 0, categories = [], riskLevel = LOW,
             analysis =
               \<lparr> hasBrowserAutomation = False, hasAI = False, hasImageProcessing = False,
                 hasVideoProcessing = False, hasDatabase = False,
                 totalDependencies = 0 \<rparr> \<rparr>"
  using assms by (simp add: execute_def try_block_def default_report_def)

lemma sample_throws_empty: "JSON_parse_sample '''' = Inl SyntaxError"
  by code_simp

lemma sample_throws_not_json: "JSON_parse_sample ''{not json'' = Inl SyntaxError"
  by code_simp

lemma sample_throws_truncated:
  "JSON_parse_sample ''{\"dependencies\":{\"puppeteer\":'' = Inl SyntaxError"
  by code_simp

theorem unparsable_manifest_witness:
  "execute JSON_parse_sample '''' = default_report \<and>
   execute JSON_parse_sample ''{not json'' = default_report \<and>
   execute JSON_parse_sample ''{\"dependencies\":{\"puppeteer\":'' = default_report"
  using
    unparsable_manifest_gives_default_report
      [of JSON_parse_sample "[]" SyntaxError]
    unparsable_manifest_gives_default_report
      [of JSON_parse_sample "''{not json''" SyntaxError]
    unparsable_manifest_gives_default_report
      [of JSON_parse_sample "''{\"dependencies\":{\"puppeteer\":''" SyntaxError]
    sample_throws_empty sample_throws_not_json sample_throws_truncated
  by (simp add: default_report_def)

subsection \<open>Property lists and \<open>Object.keys\<close>\<close>

lemma map_fst_set_prop:
  "map fst (set_prop k v ps) = (if k \<in> set (map fst ps) then map fst ps else map fst ps @ [k])"
  by (induction ps) auto

lemma distinct_set_prop: "distinct (map fst ps) \<Longrightarrow> distinct (map fst (set_prop k v ps))"
  by (simp add: map_fst_set_prop)

lemma keys_set_prop: "set (map fst (set_prop k v ps)) = insert k (set (map fst ps))"
  by (auto simp: map_fst_set_prop)

lemma distinct_set_props: "distinct (map fst t) \<Longrightarrow> distinct (map fst (set_props kvs t))"
  unfolding set_props_def
  by (induction kvs arbitrary: t) (simp_all add: distinct_set_prop)

lemma keys_set_props: "set (map fst (set_props kvs t)) = set (map fst kvs) \<union> set (map fst t)"
  unfolding set_props_def
  by (induction kvs arbitrary: t) (auto simp: keys_set_prop simp del: set_map)

lemma map_of_set_prop: "map_of (set_prop k v ps) k' = (if k' = k then Some v else map_of ps k')"
  by (induction ps) auto

lemma map_fst_insort:
  "map fst (insort_key (\<lambda>p. f (fst p)) x xs) = insort_key f (fst x) (map fst xs)"
  by (induction xs) auto

lemma map_fst_sort_key:
  "map fst (sort_key (\<lambda>p. f (fst p)) xs) = sort_key f (map fst xs)"
  by (induction xs) (simp_all add: map_fst_insort)

lemma Object_keys_eq:
  "Object_keys ps =
     sort_key index_value (filter is_array_index (map fst ps)) @
     filter (\<lambda>k. \<not> is_array_index k) (map fst ps)"
  by (simp add: Object_keys_def own_entries_def map_fst_sort_key filter_map comp_def)

lemma set_Object_keys: "set (Object_keys ps) = set (map fst ps)"
  by (auto simp: Object_keys_eq)

lemma distinct_Object_keys: "distinct (map fst ps) \<Longrightarrow> distinct (Object_keys ps)"
  by (auto simp: Object_keys_eq)

lemma length_Object_keys: "length (Object_keys ps) = length ps"
proof -
  have "length (Object_keys ps) =
          length (filter is_array_index (map fst ps)) +
          length (filter (\<lambda>k. \<not> is_array_index k) (map fst ps))"
    by (simp add: Object_keys_eq)
  also have "\<dots> = length (map fst ps)"
    by (rule sum_length_filter_compl)
  finally show ?thesis by simp
qed

lemma filter_Object_keys:
  assumes "\<And>k. P k \<Longrightarrow> \<not> is_array_index k"
  shows "filter P (Object_keys ps) = filter P (map fst ps)"
proof -
  have "filter P (sort_key index_value (filter is_array_index (map fst ps))) = []"
    using assms by (auto simp: filter_empty_conv)
  moreover have "filter P (filter (\<lambda>k. \<not> is_array_index k) (map fst ps)) = filter P (map fst ps)"
    using assms by (auto intro: filter_cong)
  ultimately show ?thesis by (simp add: Object_keys_eq)
qed

lemma set_own_entries: "set (own_entries ps) = set ps"
  by (auto simp: own_entries_def)

lemma distinct_own_entries: "distinct (map fst ps) \<Longrightarrow> distinct (map fst (own_entries ps))"
  using distinct_Object_keys [of ps] by (simp add: Object_keys_def)

subsection \<open>The catalog lookup\<close>

lemma heavy_names_not_index:
  "list_all (\<lambda>k. \<not> is_digit (hd k)) (map fst heavyPackagesList @ Object_prototype_names)"
  by code_simp

lemma is_array_index_hd: "is_array_index k \<Longrightarrow> is_digit (hd k)"
  by (cases k) (simp_all add: is_array_index_def)

lemma listed_cases:
  "listed k \<longleftrightarrow> k \<in> fst ` set heavyPackagesList \<or> k \<in> set Object_prototype_names"
proof (cases "map_of heavyPackagesList k")
  case None
  then have "k \<notin> fst ` set heavyPackagesList"
    by (simp add: map_of_eq_None_iff)
  with None show ?thesis
    by (simp add: listed_def heavy_lookup_def)
next
  case (Some e)
  then have "k \<in> fst ` set heavyPackagesList"
    by (metis map_of_eq_None_iff option.distinct(1))
  with Some show ?thesis
    by (simp add: listed_def heavy_lookup_def split: prod.splits)
qed

lemma listed_not_index:
  assumes "listed k"
  shows "\<not> is_array_index k"
proof
  assume "is_array_index k"
  then have "is_digit (hd k)"
    by (rule is_array_index_hd)
  moreover from assms have "k \<in> set (map fst heavyPackagesList @ Object_prototype_names)"
    by (auto simp: listed_cases)
  then have "\<not> is_digit (hd k)"
    using heavy_names_not_index unfolding list_all_iff by blast
  ultimately show False by contradiction
qed

subsection \<open>The scan loop\<close>

lemma scan_step_unlisted: "\<not> listed k \<Longrightarrow> scan_step k st = st"
  by (simp add: scan_step_def listed_def)

lemma heavyPackages_scan_step:
  "heavyPackages (scan_step k st) = heavyPackages st @ (if listed k then [k] else [])"
  by (cases "heavy_lookup k") (simp_all add: scan_step_def listed_def Let_def)

lemma js_add_zero: "js_add x (Num 0) = x"
  by (cases x) simp_all

lemma totalWeight_scan_step:
  "totalWeight (scan_step k st) = js_add (totalWeight st) (key_weight k)"
  by (cases "heavy_lookup k") (simp_all add: scan_step_def key_weight_def Let_def js_add_zero)

lemma heavyPackages_fold:
  "heavyPackages (fold scan_step ks st) = heavyPackages st @ filter listed ks"
  by (induction ks arbitrary: st) (simp_all add: heavyPackages_scan_step)

lemma totalWeight_fold:
  "totalWeight (fold scan_step ks st) = foldl js_add (totalWeight st) (map key_weight ks)"
  by (induction ks arbitrary: st) (simp_all add: totalWeight_scan_step)

lemma heavyPackages_score:
  "heavyPackages (score allDeps) = filter listed (map fst allDeps)"
  by (simp add: score_def Let_def heavyPackages_fold scan_init_def filter_Object_keys listed_not_index)

lemma totalWeight_score:
  "totalWeight (score allDeps) = foldl js_add (Num 0) (map key_weight (Object_keys allDeps))"
  by (simp add: score_def Let_def totalWeight_fold scan_init_def)

lemma riskLevel_score: "riskLevel (score allDeps) = classify (totalWeight (score allDeps))"
  by (simp add: score_def Let_def)

subsection \<open>The merged mapping and the summed weight\<close>

lemma distinct_spread: "distinct (map fst t) \<Longrightarrow> distinct (map fst (spread src t))"
  by (cases src) (simp_all add: spread_def distinct_set_props)

lemma merge_deps_distinct: "merge_deps pkg = Inr allDeps \<Longrightarrow> distinct (map fst allDeps)"
  by (auto simp: merge_deps_def distinct_spread split: sum.splits)

lemma execute_cases:
  obtains (default) "execute JSON_parse packageJson = default_report"
  | (scored) pkg allDeps where "JSON_parse packageJson = Inr pkg"
      and "merge_deps pkg = Inr allDeps"
      and "execute JSON_parse packageJson = score allDeps"
proof (cases "JSON_parse packageJson")
  case (Inl e)
  then show ?thesis
    using default by (simp add: execute_def try_block_def)
next
  case (Inr pkg)
  show ?thesis
  proof (cases "merge_deps pkg")
    case (Inl e)
    with Inr show ?thesis
      using default by (simp add: execute_def try_block_def)
  next
    case allDeps: (Inr allDeps)
    with Inr show ?thesis
      using scored [of pkg allDeps] by (simp add: execute_def try_block_def)
  qed
qed

lemma some_includes_iff: "some_includes heavy names \<longleftrightarrow> set heavy \<inter> set names \<noteq> {}"
  by (auto simp: some_includes_def list_ex_iff)

lemma catalog_weights_positive: "list_all (\<lambda>e. 0 < fst (snd e)) heavyPackagesList"
  by code_simp

lemma catalog_weight_nonneg: "0 \<le> catalog_weight k"
proof (cases "map_of heavyPackagesList k")
  case None
  then show ?thesis by (simp add: catalog_weight_def)
next
  case (Some e)
  then have "(k, e) \<in> set heavyPackagesList"
    by (rule map_of_SomeD)
  then have "0 < fst e"
    using catalog_weights_positive unfolding list_all_iff by fastforce
  with Some show ?thesis
    by (cases e) (simp add: catalog_weight_def)
qed

lemma key_weight_eq:
  "key_weight k = (if inherited k then NaN else Num (catalog_weight k))"
  by (cases "map_of heavyPackagesList k")
    (auto simp: key_weight_def inherited_def heavy_lookup_def catalog_weight_def)

lemma foldl_js_add_NaN: "foldl js_add NaN xs = NaN"
  by (induction xs) simp_all

lemma foldl_key_weights:
  "foldl js_add (Num t) (map key_weight ks) =
     (if list_ex inherited ks then NaN else Num (t + sum_list (map catalog_weight ks)))"
  by (induction ks arbitrary: t) (simp_all add: key_weight_eq foldl_js_add_NaN add.assoc)

lemma totalWeight_score_eq:
  "totalWeight (score allDeps) =
     (if list_ex inherited (Object_keys allDeps) then NaN
      else Num (sum_list (map catalog_weight (Object_keys allDeps))))"
  by (simp add: totalWeight_score foldl_key_weights)

lemma member_le_sum_catalog_weight:
  "k \<in> set ks \<Longrightarrow> catalog_weight k \<le> sum_list (map catalog_weight ks)"
proof (induction ks)
  case Nil
  then show ?case by simp
next
  case (Cons a ks)
  have "0 \<le> sum_list (map catalog_weight ks)"
    by (rule sum_list_nonneg) (auto simp: catalog_weight_nonneg)
  with Cons catalog_weight_nonneg [of a] show ?case
    by auto
qed

lemma browser_weights: "list_all (\<lambda>k. 7 \<le> catalog_weight k) browser_names"
  by code_simp


lemma analysis_score:
  "analysis (score allDeps) =
     \<lparr> hasBrowserAutomation = some_includes (heavyPackages (score allDeps)) browser_names,
       hasAI = some_includes (heavyPackages (score allDeps)) ai_names,
       hasImageProcessing = some_includes (heavyPackages (score allDeps)) image_names,
       hasVideoProcessing = some_includes (heavyPackages (score allDeps)) video_names,
       hasDatabase = some_includes (heavyPackages (score allDeps)) database_names,
       totalDependencies = length allDeps \<rparr>"
  by (simp add: score_def Let_def length_Object_keys)

lemma classify_Num:
  "classify (Num w) =
     (if w \<le> 5 then LOW else if w \<le> 15 then MEDIUM else if w \<le> 30 then HIGH else CRITICAL)"
  by (simp add: classify_def)

lemma classify_NaN: "classify NaN = CRITICAL"
  by (simp add: classify_def)

lemma riskLevel_execute:
  "riskLevel (execute JSON_parse packageJson) =
     classify (totalWeight (execute JSON_parse packageJson))"
proof (cases JSON_parse packageJson rule: execute_cases)
  case default
  then show ?thesis by (simp add: default_report_def classify_def)
next
  case (scored pkg allDeps)
  then show ?thesis by (simp add: riskLevel_score)
qed

subsection \<open>The risk level\<close>

text \<open>
  Claim C2. The risk level is a function of the total weight: two reports with the same
  total weight have the same risk level, and a total weight of 0 to 5 gives \<open>LOW\<close>,
  6 to 15 \<open>MEDIUM\<close>, 16 to 30 \<open>HIGH\<close>, 31 and above \<open>CRITICAL\<close>.
\<close>

theorem riskLevel_thresholds:
  "(totalWeight (execute JSON_parse' packageJson') =
      totalWeight (execute JSON_parse packageJson) \<longrightarrow>
    riskLevel (execute JSON_parse' packageJson') =
      riskLevel (execute JSON_parse packageJson)) \<and>
   (totalWeight (execute JSON_parse packageJson) = Num w \<longrightarrow>
     (0 \<le> w \<and> w \<le> 5 \<longrightarrow> riskLevel (execute JSON_parse packageJson) = LOW) \<and>
     (6 \<le> w \<and> w \<le> 15 \<longrightarrow> riskLevel (execute JSON_parse packageJson) = MEDIUM) \<and>
     (16 \<le> w \<and> w \<le> 30 \<longrightarrow> riskLevel (execute JSON_parse packageJson) = HIGH) \<and>
     (31 \<le> w \<longrightarrow> riskLevel (execute JSON_parse packageJson) = CRITICAL))"
  by (simp add: riskLevel_execute classify_Num)

lemma totalWeight_weight5: "totalWeight (execute JSON_parse_sample weight5_text) = Num 5"
  by code_simp

lemma totalWeight_weight6: "totalWeight (execute JSON_parse_sample weight6_text) = Num 6"
  by code_simp

lemma totalWeight_weight15: "totalWeight (execute JSON_parse_sample weight15_text) = Num 15"
  by code_simp

lemma totalWeight_weight16: "totalWeight (execute JSON_parse_sample weight16_text) = Num 16"
  by code_simp

lemma totalWeight_weight30: "totalWeight (execute JSON_parse_sample weight30_text) = Num 30"
  by code_simp

lemma totalWeight_weight31: "totalWeight (execute JSON_parse_sample weight31_text) = Num 31"
  by code_simp

theorem riskLevel_thresholds_witness:
  "riskLevel (execute JSON_parse_sample weight5_text) = LOW \<and>
   riskLevel (execute JSON_parse_sample weight6_text) = MEDIUM \<and>
   riskLevel (execute JSON_parse_sample weight15_text) = MEDIUM \<and>
   riskLevel (execute JSON_parse_sample weight16_text) = HIGH \<and>
   riskLevel (execute JSON_parse_sample weight30_text) = HIGH \<and>
   riskLevel (execute JSON_parse_sample weight31_text) = CRITICAL"
  using
    riskLevel_thresholds
      [where JSON_parse = JSON_parse_sample and packageJson = weight5_text and w = 5
         and JSON_parse' = JSON_parse_sample and packageJson' = weight5_text]
    riskLevel_thresholds
      [where JSON_parse = JSON_parse_sample and packageJson = weight6_text and w = 6
         and JSON_parse' = JSON_parse_sample and packageJson' = weight6_text]
    riskLevel_thresholds
      [where JSON_parse = JSON_parse_sample and packageJson = weight15_text and w = 15
         and JSON_parse' = JSON_parse_sample and packageJson' = weight15_text]
    riskLevel_thresholds
      [where JSON_parse = JSON_parse_sample and packageJson = weight16_text and w = 16
         and JSON_parse' = JSON_parse_sample and packageJson' = weight16_text]
    riskLevel_thresholds
      [where JSON_parse = JSON_parse_sample and packageJson = weight30_text and w = 30
         and JSON_parse' = JSON_parse_sample and packageJson' = weight30_text]
    riskLevel_thresholds
      [where JSON_parse = JSON_parse_sample and packageJson = weight31_text and w = 31
         and JSON_parse' = JSON_parse_sample and packageJson' = weight31_text]
  by (simp add: totalWeight_weight5 totalWeight_weight6 totalWeight_weight15
      totalWeight_weight16 totalWeight_weight30 totalWeight_weight31)

subsection \<open>The heavy packages and the flags\<close>

text \<open>
  Claim C9. The sequence \<open>heavyPackages\<close> of the report has no duplicates: the keys of
  the merged mapping are distinct and each is scanned once.
\<close>

theorem heavyPackages_distinct:
  "distinct (heavyPackages (execute JSON_parse packageJson))"
proof (cases JSON_parse packageJson rule: execute_cases)
  case default
  then show ?thesis by (simp add: default_report_def)
next
  case (scored pkg allDeps)
  from scored(2) have "distinct (map fst allDeps)"
    by (rule merge_deps_distinct)
  then have "distinct (filter listed (map fst allDeps))"
    by (rule distinct_filter)
  with scored(3) show ?thesis
    by (simp add: heavyPackages_score)
qed

text \<open>
  Claim C6. For every manifest text, each of the five flags of the report is true
  exactly when \<open>heavyPackages\<close> holds a name of the flag's list.
\<close>

theorem flags_iff_name_set_present:
  "(hasBrowserAutomation (analysis (execute JSON_parse packageJson)) \<longleftrightarrow>
      set (heavyPackages (execute JSON_parse packageJson)) \<inter>
        set [''puppeteer'', ''playwright'', ''selenium-webdriver''] \<noteq> {}) \<and>
   (hasAI (analysis (execute JSON_parse packageJson)) \<longleftrightarrow>
      set (heavyPackages (execute JSON_parse packageJson)) \<inter>
        set [''tensorflow'', ''@tensorflow/tfjs'', ''torch'', ''opencv'', ''mediapipe''] \<noteq> {}) \<and>
   (hasImageProcessing (analysis (execute JSON_parse packageJson)) \<longleftrightarrow>
      set (heavyPackages (execute JSON_parse packageJson)) \<inter>
        set [''sharp'', ''jimp'', ''canvas''] \<noteq> {}) \<and>
   (hasVideoProcessing (analysis (execute JSON_parse packageJson)) \<longleftrightarrow>
      set (heavyPackages (execute JSON_parse packageJson)) \<inter>
        set [''ffmpeg'', ''node-ffmpeg''] \<noteq> {}) \<and>
   (hasDatabase (analysis (execute JSON_parse packageJson)) \<longleftrightarrow>
      set (heavyPackages (execute JSON_parse packageJson)) \<inter>
        set [''mysql2'', ''pg'', ''mongodb'', ''redis'', ''elasticsearch''] \<noteq> {})"
proof (cases JSON_parse packageJson rule: execute_cases)
  case default
  then show ?thesis by (simp add: default_report_def)
next
  case (scored pkg allDeps)
  show ?thesis
    unfolding scored(3) analysis_score some_includes_iff
    by (simp only: analysis_flags.simps browser_names_def ai_names_def image_names_def
        video_names_def database_names_def simp_thms)
qed

text \<open>
  Claim C10. A report whose flag \<open>hasBrowserAutomation\<close> is true does not have risk
  level \<open>LOW\<close>: each name of the flag's list has a catalog weight of at least 7.
\<close>

theorem browser_automation_not_LOW:
  assumes "hasBrowserAutomation (analysis (execute JSON_parse packageJson))"
  shows "riskLevel (execute JSON_parse packageJson) \<noteq> LOW"
proof (cases JSON_parse packageJson rule: execute_cases)
  case default
  with assms show ?thesis by (simp add: default_report_def)
next
  case (scored pkg allDeps)
  with assms obtain k where k: "k \<in> set (heavyPackages (score allDeps))" "k \<in> set browser_names"
    by (auto simp: analysis_score some_includes_iff)
  from k(1) have "k \<in> set (Object_keys allDeps)"
    by (simp add: heavyPackages_score set_Object_keys)
  then have "catalog_weight k \<le> sum_list (map catalog_weight (Object_keys allDeps))"
    by (rule member_le_sum_catalog_weight)
  moreover from k(2) have "7 \<le> catalog_weight k"
    using browser_weights unfolding list_all_iff by blast
  ultimately have "classify (totalWeight (score allDeps)) \<noteq> LOW"
    by (simp add: totalWeight_score_eq classify_NaN classify_Num)
  with scored(3) show ?thesis
    by (simp add: riskLevel_score)
qed

lemma parse_puppeteer: "JSON_parse_sample puppeteer_text = Inr puppeteer_pkg"
  by code_simp

lemma puppeteer_report:
  "execute JSON_parse_sample puppeteer_text =
     \<lparr> heavyPackages = [''puppeteer''], totalWeight = Num 8,
       categories = [(''Browser Automation'', Num 8)], riskLevel = MEDIUM,
       analysis =
         \<lparr> hasBrowserAutomation = True, hasAI = False, hasImageProcessing = False,
           hasVideoProcessing = False, hasDatabase = False, totalDependencies = 2 \<rparr> \<rparr>"
  by code_simp

theorem browser_automation_witness:
  "hasBrowserAutomation (analysis (execute JSON_parse_sample puppeteer_text)) \<and>
   riskLevel (execute JSON_parse_sample puppeteer_text) \<noteq> LOW"
  using browser_automation_not_LOW [of JSON_parse_sample puppeteer_text]
  by (simp add: puppeteer_report)

subsection \<open>The scenario of the specification\<close>

lemma merge_scenario:
  "merge_deps
     (JObject
       [(''dependencies'',
         JObject [(''tensorflow'', JString ''^1''), (''sharp'', JString ''^1'')]),
        (''devDependencies'', JObject [(''jest'', JString ''^1'')])]) =
   Inr [(''tensorflow'', JString ''^1''), (''sharp'', JString ''^1''),
        (''jest'', JString ''^1'')]"
  by code_simp

lemma score_scenario:
  "score [(''tensorflow'', JString ''^1''), (''sharp'', JString ''^1''),
          (''jest'', JString ''^1'')] =
     \<lparr> heavyPackages = [''tensorflow'', ''sharp'', ''jest''], totalWeight = Num 20,
       categories = [(''AI/ML'', Num 10), (''Image Processing'', Num 7), (''Testing'', Num 3)],
       riskLevel = HIGH,
       analysis =
         \<lparr> hasBrowserAutomation = False, hasAI = True, hasImageProcessing = True,
           hasVideoProcessing = False, hasDatabase = False, totalDependencies = 3 \<rparr> \<rparr>"
  by code_simp

text \<open>
  Claim C8. For the manifest with dependencies \<open>tensorflow\<close> and \<open>sharp\<close> and
  devDependencies \<open>jest\<close>, the report lists the heavy packages \<open>tensorflow\<close>, \<open>sharp\<close>,
  \<open>jest\<close> in this order, with total weight 20, the categories \<open>AI/ML\<close> 10,
  \<open>Image Processing\<close> 7 and \<open>Testing\<close> 3, risk level \<open>HIGH\<close>, and the flags \<open>hasAI\<close>
  and \<open>hasImageProcessing\<close> true.
\<close>

theorem scenario_report:
  assumes "JSON_parse packageJson =
             Inr (JObject
               [(''dependencies'',
                 JObject [(''tensorflow'', JString ''^1''), (''sharp'', JString ''^1'')]),
                (''devDependencies'', JObject [(''jest'', JString ''^1'')])])"
  shows "execute JSON_parse packageJson =
     \<lparr> heavyPackages = [''tensorflow'', ''sharp'', ''jest''], totalWeight = Num 20,
       categories = [(''AI/ML'', Num 10), (''Image Processing'', Num 7), (''Testing'', Num 3)],
       riskLevel = HIGH,
       analysis =
         \<lparr> hasBrowserAutomation = False, hasAI = True, hasImageProcessing = True,
           hasVideoProcessing = False, hasDatabase = False, totalDependencies = 3 \<rparr> \<rparr>"
  using execute_parsed [of JSON_parse packageJson, OF assms]
  by (simp only: merge_scenario score_scenario sum.case)

lemma parse_scenario: "JSON_parse_sample scenario_text = Inr scenario_pkg"
  by code_simp

theorem scenario_report_witness:
  "heavyPackages (execute JSON_parse_sample scenario_text) = [''tensorflow'', ''sharp'', ''jest''] \<and>
   totalWeight (execute JSON_parse_sample scenario_text) = Num 20 \<and>
   categories (execute JSON_parse_sample scenario_text) =
     [(''AI/ML'', Num 10), (''Image Processing'', Num 7), (''Testing'', Num 3)] \<and>
   riskLevel (execute JSON_parse_sample scenario_text) = HIGH \<and>
   hasAI (analysis (execute JSON_parse_sample scenario_text)) \<and>
   hasImageProcessing (analysis (execute JSON_parse_sample scenario_text))"
  using scenario_report [of JSON_parse_sample scenario_text] parse_scenario
  by (simp add: scenario_pkg_def)

subsection \<open>The merge order\<close>

lemma map_of_set_props:
  "distinct (map fst kvs) \<Longrightarrow>
   map_of (set_props kvs t) k = (case map_of kvs k of Some v \<Rightarrow> Some v | None \<Rightarrow> map_of t k)"
  unfolding set_props_def
proof (induction kvs arbitrary: t)
  case Nil
  then show ?case by simp
next
  case (Cons kv kvs)
  from Cons.prems have "map_of kvs (fst kv) = None"
    by (simp add: map_of_eq_None_iff)
  with Cons show ?case
    by (cases kv) (auto simp: map_of_set_prop split: option.splits)
qed

lemma map_of_own_entries:
  assumes "distinct (map fst ps)"
  shows "map_of (own_entries ps) = map_of ps"
proof -
  have "distinct (map fst (own_entries ps))"
    using assms by (rule distinct_own_entries)
  then show ?thesis
    using assms by (simp add: map_of_inject_set set_own_entries)
qed

lemma distinct_object_props: "distinct (map fst (object_props members))"
  by (simp add: object_props_def distinct_set_props)

lemma map_of_spread_object:
  "map_of (spread (Some (JObject members)) t) k =
     (case map_of (object_props members) k of Some v \<Rightarrow> Some v | None \<Rightarrow> map_of t k)"
  by (simp add: spread_def map_of_set_props distinct_own_entries distinct_object_props
      map_of_own_entries)

text \<open>
  Claim C3, as the code has it. When a name is a key of both the \<open>dependencies\<close> object
  and the \<open>devDependencies\<close> object, the merged mapping \<open>allDeps\<close> maps it to the
  value from \<open>devDependencies\<close>: the later spread overwrites the earlier one.
\<close>

theorem devDependencies_value_wins:
  assumes "get_prop pkg ''dependencies'' = Inr (Some (JObject deps))"
    and "get_prop pkg ''devDependencies'' = Inr (Some (JObject devs))"
    and "map_of (object_props deps) name = Some v"
    and "map_of (object_props devs) name = Some v'"
  shows "\<exists>allDeps. merge_deps pkg = Inr allDeps \<and> map_of allDeps name = Some v'"
  using assms by (simp add: merge_deps_def map_of_spread_object)

text \<open>
  The claim as stated, that the value from \<open>dependencies\<close> wins, fails for
  \<open>jest\<close> with \<open>^28\<close> in \<open>dependencies\<close> and \<open>^29\<close> in \<open>devDependencies\<close>: the merged
  mapping holds \<open>^29\<close>.
\<close>

theorem runtime_value_wins_counterexample:
  "get_prop
     (JObject [(''dependencies'', JObject [(''jest'', JString ''^28'')]),
               (''devDependencies'', JObject [(''jest'', JString ''^29'')])])
     ''dependencies'' = Inr (Some (JObject [(''jest'', JString ''^28'')])) \<and>
   get_prop
     (JObject [(''dependencies'', JObject [(''jest'', JString ''^28'')]),
               (''devDependencies'', JObject [(''jest'', JString ''^29'')])])
     ''devDependencies'' = Inr (Some (JObject [(''jest'', JString ''^29'')])) \<and>
   merge_deps
     (JObject [(''dependencies'', JObject [(''jest'', JString ''^28'')]),
               (''devDependencies'', JObject [(''jest'', JString ''^29'')])]) =
     Inr [(''jest'', JString ''^29'')] \<and>
   map_of [(''jest'', JString ''^29'')] ''jest'' \<noteq> Some (JString ''^28'')"
  by code_simp

theorem devDependencies_value_wins_witness:
  "\<exists>allDeps. merge_deps both_sets_pkg = Inr allDeps \<and>
      map_of allDeps ''jest'' = Some (JString ''^29'')"
  using devDependencies_value_wins
    [of both_sets_pkg "[(''jest'', JString ''^28'')]" "[(''jest'', JString ''^29'')]"
        "''jest''" "JString ''^28''" "JString ''^29''"]
  by (simp add: both_sets_pkg_def object_props_def set_props_def)

subsection \<open>The names of the flag \<open>hasAI\<close>\<close>

lemma aiml_names: "category_names ''AI/ML'' = [''tensorflow'', ''@tensorflow/tfjs'', ''torch'']"
  by code_simp

lemma vision_names: "category_names ''Computer Vision'' = [''opencv'', ''mediapipe'']"
  by code_simp

text \<open>
  The claim as stated, that the list of \<open>hasAI\<close> holds only a part of the catalog's
  \<open>AI/ML\<close> names, fails: every \<open>AI/ML\<close> name is in the list, and \<open>opencv\<close> is in
  the list without being an \<open>AI/ML\<close> name.
\<close>

theorem hasAI_names_narrower_counterexample:
  "set (category_names ''AI/ML'') \<subseteq> set ai_names \<and>
   ''opencv'' \<in> set ai_names \<and> ''opencv'' \<notin> set (category_names ''AI/ML'') \<and>
   \<not> set ai_names \<subset> set (category_names ''AI/ML'')"
  by code_simp

text \<open>
  Claim C4, as the code has it. The list of \<open>hasAI\<close> holds every catalog name of the
  category \<open>AI/ML\<close> followed by every catalog name of the category
  \<open>Computer Vision\<close>; the \<open>AI/ML\<close> names are a proper part of it.
\<close>

theorem hasAI_names_are_two_categories:
  "ai_names = category_names ''AI/ML'' @ category_names ''Computer Vision'' \<and>
   set (category_names ''AI/ML'') \<subset> set ai_names"
  by code_simp

subsection \<open>The total weight and the categories\<close>

text \<open>
  When no key of the merged mapping is a member of \<open>Object.prototype\<close>, the total
  weight is a number and equals the sum of the category values.
\<close>

lemma sum_values_set_prop:
  "sum_values cats = Num t \<Longrightarrow>
   sum_values (set_prop c (js_add (or_zero (map_of cats c)) (Num w)) cats) = Num (t + w)"
proof (induction cats arbitrary: t)
  case Nil
  then show ?case by simp
next
  case (Cons p ps)
  from Cons.prems obtain a b where ab: "snd p = Num a" "sum_values ps = Num b" "t = a + b"
    by (cases "snd p"; cases "sum_values ps") auto
  show ?case
  proof (cases "fst p = c")
    case True
    then have "map_of (p # ps) c = Some (snd p)"
      by (cases p) simp
    with True ab show ?thesis by simp
  next
    case False
    then have "map_of (p # ps) c = map_of ps c"
      by (cases p) simp
    with False ab Cons.IH [of b] show ?thesis by simp
  qed
qed

lemma scan_step_entry:
  "heavy_lookup k = Some (Entry w c) \<Longrightarrow>
   scan_step k st =
     \<lparr> heavyPackages = heavyPackages st @ [k],
       totalWeight = js_add (totalWeight st) (Num w),
       categories = set_prop c (js_add (or_zero (map_of (categories st) c)) (Num w)) (categories st) \<rparr>"
  by (simp add: scan_step_def)

lemma scan_step_sums:
  assumes "\<not> inherited k"
    and "totalWeight st = Num t" and "sum_values (categories st) = Num t"
  shows "\<exists>t'. totalWeight (scan_step k st) = Num t' \<and>
              sum_values (categories (scan_step k st)) = Num t'"
proof (cases "heavy_lookup k")
  case None
  with assms show ?thesis by (simp add: scan_step_def)
next
  case (Some e)
  with assms(1) obtain w c where "heavy_lookup k = Some (Entry w c)"
    by (cases e) (simp_all add: inherited_def)
  with assms(2,3) show ?thesis
    by (simp add: scan_step_entry sum_values_set_prop)
qed

lemma fold_scan_step_sums:
  assumes "\<not> list_ex inherited ks"
    and "totalWeight st = Num t" and "sum_values (categories st) = Num t"
  shows "\<exists>t'. totalWeight (fold scan_step ks st) = Num t' \<and>
              sum_values (categories (fold scan_step ks st)) = Num t'"
  using assms
proof (induction ks arbitrary: st t)
  case Nil
  then show ?case by simp
next
  case (Cons k ks)
  from Cons.prems have "\<not> inherited k" by simp
  from scan_step_sums [OF this Cons.prems(2,3)]
  obtain t' where "totalWeight (scan_step k st) = Num t'"
    "sum_values (categories (scan_step k st)) = Num t'"
    by blast
  with Cons.IH [of "scan_step k st" t'] Cons.prems(1) show ?case
    by simp
qed

lemma weight_is_sum_of_categories:
  assumes "\<not> list_ex inherited (Object_keys allDeps)"
  shows "js_eq (totalWeight (score allDeps)) (sum_values (categories (score allDeps)))"
proof -
  from fold_scan_step_sums [OF assms, of scan_init 0]
  obtain t' where "totalWeight (fold scan_step (Object_keys allDeps) scan_init) = Num t'"
    "sum_values (categories (fold scan_step (Object_keys allDeps) scan_init)) = Num t'"
    by (auto simp: scan_init_def)
  then show ?thesis
    by (simp add: score_def Let_def)
qed

text \<open>
  Claim C5 at a manifest whose only dependency is named \<open>constructor\<close>. The lookup
  \<open>heavyPackagesList["constructor"]\<close> finds \<open>Object.prototype.constructor\<close>, so the
  key counts as heavy with \<open>weight\<close> and \<open>category\<close> undefined: the total weight and the
  only category value are \<open>NaN\<close>, and the total weight does not equal the sum of the
  category values.
\<close>

theorem constructor_dependency_report:
  "execute JSON_parse_sample constructor_text =
     \<lparr> heavyPackages = [''constructor''], totalWeight = NaN,
       categories = [(''undefined'', NaN)], riskLevel = CRITICAL,
       analysis =
         \<lparr> hasBrowserAutomation = False, hasAI = False, hasImageProcessing = False,
           hasVideoProcessing = False, hasDatabase = False, totalDependencies = 1 \<rparr> \<rparr> \<and>
   \<not> js_eq (totalWeight (execute JSON_parse_sample constructor_text))
        (sum_values (categories (execute JSON_parse_sample constructor_text)))"
  by code_simp

subsection \<open>One more dependency\<close>

lemma keys_enumerable_object:
  "set (map fst (enumerable_own (JObject members))) = set (map fst members)"
proof -
  have "set (map fst (own_entries (object_props members))) = set (map fst (object_props members))"
    by (simp only: set_map set_own_entries)
  also have "\<dots> = set (map fst members)"
    using keys_set_props [of members "[]"] by (simp add: object_props_def)
  finally show ?thesis by simp
qed

lemma keys_spread_object:
  "set (map fst (spread (Some (JObject members)) t)) = set (map fst members) \<union> set (map fst t)"
  by (simp only: spread_def option.case keys_set_props keys_enumerable_object)

lemma keys_spread_insert:
  "set (map fst (spread (Some (JObject (xs @ (name, v) # ys))) t)) =
     insert name (set (map fst (spread (Some (JObject (xs @ ys))) t)))"
  by (auto simp: keys_spread_object simp del: set_map)

lemma keys_spread_cong:
  "set (map fst t') = insert name (set (map fst t)) \<Longrightarrow>
   set (map fst (spread src t')) = insert name (set (map fst (spread src t)))"
  by (cases src) (auto simp: spread_def keys_set_props simp del: set_map)

lemma insert_dependency_keys:
  assumes "get_prop pkg ''dependencies'' = Inr (Some (JObject (xs @ ys)))"
    and "get_prop pkg' ''dependencies'' = Inr (Some (JObject (xs @ (name, v) # ys)))"
    and "get_prop pkg' ''devDependencies'' = get_prop pkg ''devDependencies''"
    and "merge_deps pkg = Inr allDeps" and "merge_deps pkg' = Inr allDeps'"
  shows "set (Object_keys allDeps') = insert name (set (Object_keys allDeps))"
proof -
  from assms(1,4) obtain dev where dev: "get_prop pkg ''devDependencies'' = Inr dev"
    and a: "allDeps = spread dev (spread (Some (JObject (xs @ ys))) [])"
    by (auto simp: merge_deps_def split: sum.splits)
  from assms(2,3,5) dev have a': "allDeps' = spread dev (spread (Some (JObject (xs @ (name, v) # ys))) [])"
    by (auto simp: merge_deps_def split: sum.splits)
  show ?thesis
    unfolding set_Object_keys a a'
    by (rule keys_spread_cong) (rule keys_spread_insert)
qed

lemma insert_devDependency_keys:
  assumes "get_prop pkg ''devDependencies'' = Inr (Some (JObject (xs @ ys)))"
    and "get_prop pkg' ''devDependencies'' = Inr (Some (JObject (xs @ (name, v) # ys)))"
    and "get_prop pkg' ''dependencies'' = get_prop pkg ''dependencies''"
    and "merge_deps pkg = Inr allDeps" and "merge_deps pkg' = Inr allDeps'"
  shows "set (Object_keys allDeps') = insert name (set (Object_keys allDeps))"
proof -
  from assms(1,4) obtain dep where dep: "get_prop pkg ''dependencies'' = Inr dep"
    and a: "allDeps = spread (Some (JObject (xs @ ys))) (spread dep [])"
    by (auto simp: merge_deps_def split: sum.splits)
  from assms(2,3,5) dep have a': "allDeps' = spread (Some (JObject (xs @ (name, v) # ys))) (spread dep [])"
    by (auto simp: merge_deps_def split: sum.splits)
  show ?thesis
    unfolding set_Object_keys a a' by (rule keys_spread_insert)
qed

lemma not_js_lt_add: "0 \<le> w \<Longrightarrow> \<not> js_lt (js_add x (Num w)) x"
  by (cases x) simp_all

lemma catalog_entry_weight:
  assumes "map_of heavyPackagesList name = Some (w, c)"
  shows "catalog_weight name = w" and "0 < w" and "\<not> inherited name" and "listed name"
proof -
  show "catalog_weight name = w"
    using assms by (simp add: catalog_weight_def)
  from assms have "(name, w, c) \<in> set heavyPackagesList"
    by (rule map_of_SomeD)
  then show "0 < w"
    using catalog_weights_positive unfolding list_all_iff by fastforce
  show "\<not> inherited name"
    using assms by (simp add: inherited_def heavy_lookup_def)
  show "listed name"
    using assms by (simp add: listed_def heavy_lookup_def)
qed

lemma some_includes_mono:
  "set heavy \<subseteq> set heavy' \<Longrightarrow> some_includes heavy names \<Longrightarrow> some_includes heavy' names"
  by (auto simp: some_includes_iff)

lemma score_one_more_key:
  assumes "distinct (map fst allDeps)" and "distinct (map fst allDeps')"
    and keys: "set (Object_keys allDeps') = insert name (set (Object_keys allDeps))"
    and new: "name \<notin> set (Object_keys allDeps)"
    and entry: "map_of heavyPackagesList name = Some (w, c)"
  shows "totalWeight (score allDeps') = js_add (totalWeight (score allDeps)) (Num w)"
    and "set (heavyPackages (score allDeps')) = insert name (set (heavyPackages (score allDeps)))"
proof -
  let ?ks = "Object_keys allDeps" and ?ks' = "Object_keys allDeps'"
  have d: "distinct ?ks" "distinct ?ks'"
    using assms(1,2) by (simp_all add: distinct_Object_keys)
  have "sum_list (map catalog_weight ?ks') = sum catalog_weight (set ?ks')"
    using d(2) by (rule sum_list_distinct_conv_sum_set)
  also have "\<dots> = catalog_weight name + sum catalog_weight (set ?ks)"
    using new by (simp add: keys)
  also have "sum catalog_weight (set ?ks) = sum_list (map catalog_weight ?ks)"
    using d(1) by (rule sum_list_distinct_conv_sum_set [symmetric])
  finally have sum: "sum_list (map catalog_weight ?ks') = sum_list (map catalog_weight ?ks) + w"
    by (simp add: catalog_entry_weight(1) [OF entry])
  have "list_ex inherited ?ks' \<longleftrightarrow> list_ex inherited ?ks"
    using catalog_entry_weight(3) [OF entry] by (auto simp: list_ex_iff keys)
  with sum show "totalWeight (score allDeps') = js_add (totalWeight (score allDeps)) (Num w)"
    by (simp add: totalWeight_score_eq)
  have "set (heavyPackages (score allDeps')) = {k \<in> set ?ks'. listed k}"
    by (simp add: heavyPackages_score set_Object_keys)
  also have "\<dots> = insert name {k \<in> set ?ks. listed k}"
    using catalog_entry_weight(4) [OF entry] by (auto simp: keys)
  also have "{k \<in> set ?ks. listed k} = set (heavyPackages (score allDeps))"
    by (simp add: heavyPackages_score set_Object_keys)
  finally show "set (heavyPackages (score allDeps')) =
      insert name (set (heavyPackages (score allDeps)))" .
qed

text \<open>
  Claim C7. Take two manifests whose merged mappings differ by one key: the second has
  the keys of the first and one more, \<open>name\<close>, which has a catalog entry of weight \<open>w\<close>.
  Then the total weight of the second report is not less than that of the first (it is
  the first plus \<open>w\<close>, and \<open>w\<close> is positive), and each flag that is true in the first
  report is true in the second. Inserting a member \<open>name\<close> into the \<open>dependencies\<close> or the
  \<open>devDependencies\<close> object gives such a pair (\<open>insert_dependency_keys\<close>,
  \<open>insert_devDependency_keys\<close>).
\<close>

theorem adding_catalog_dependency_monotone:
  assumes "JSON_parse packageJson = Inr pkg" and "JSON_parse packageJson' = Inr pkg'"
    and "merge_deps pkg = Inr allDeps" and "merge_deps pkg' = Inr allDeps'"
    and "set (Object_keys allDeps') = insert name (set (Object_keys allDeps))"
    and "name \<notin> set (Object_keys allDeps)"
    and "map_of heavyPackagesList name = Some (w, c)"
  shows "\<not> js_lt (totalWeight (execute JSON_parse packageJson'))
              (totalWeight (execute JSON_parse packageJson)) \<and>
         totalWeight (execute JSON_parse packageJson') =
           js_add (totalWeight (execute JSON_parse packageJson)) (Num w) \<and>
         0 < w \<and>
         (hasBrowserAutomation (analysis (execute JSON_parse packageJson)) \<longrightarrow>
            hasBrowserAutomation (analysis (execute JSON_parse packageJson'))) \<and>
         (hasAI (analysis (execute JSON_parse packageJson)) \<longrightarrow>
            hasAI (analysis (execute JSON_parse packageJson'))) \<and>
         (hasImageProcessing (analysis (execute JSON_parse packageJson)) \<longrightarrow>
            hasImageProcessing (analysis (execute JSON_parse packageJson'))) \<and>
         (hasVideoProcessing (analysis (execute JSON_parse packageJson)) \<longrightarrow>
            hasVideoProcessing (analysis (execute JSON_parse packageJson'))) \<and>
         (hasDatabase (analysis (execute JSON_parse packageJson)) \<longrightarrow>
            hasDatabase (analysis (execute JSON_parse packageJson')))"
proof -
  have r: "execute JSON_parse packageJson = score allDeps"
    using execute_parsed [of JSON_parse packageJson pkg] assms(1,3) by simp
  have r': "execute JSON_parse packageJson' = score allDeps'"
    using execute_parsed [of JSON_parse packageJson' pkg'] assms(2,4) by simp
  note one_more =
    score_one_more_key [OF merge_deps_distinct [OF assms(3)] merge_deps_distinct [OF assms(4)]
      assms(5,6,7)]
  have w: "0 < w"
    by (rule catalog_entry_weight(2) [OF assms(7)])
  have sub: "set (heavyPackages (score allDeps)) \<subseteq> set (heavyPackages (score allDeps'))"
    unfolding one_more(2) by blast
  show ?thesis
    unfolding r r' analysis_score
    using w one_more(1) some_includes_mono [OF sub]
    by (simp add: not_js_lt_add)
qed

lemma parse_puppeteer_sharp: "JSON_parse_sample puppeteer_sharp_text = Inr puppeteer_sharp_pkg"
  by code_simp

lemma merge_puppeteer:
  "merge_deps puppeteer_pkg =
     Inr [(''puppeteer'', JString ''^1.0''), (''left-pad'', JString ''^1.0'')]"
  by code_simp

lemma merge_puppeteer_sharp:
  "merge_deps puppeteer_sharp_pkg =
     Inr [(''puppeteer'', JString ''^1.0''), (''left-pad'', JString ''^1.0''),
          (''sharp'', JString ''^1'')]"
  by code_simp

lemma keys_puppeteer:
  "Object_keys [(''puppeteer'', JString ''^1.0''), (''left-pad'', JString ''^1.0'')] =
     [''puppeteer'', ''left-pad'']"
  by code_simp

lemma keys_puppeteer_sharp:
  "Object_keys [(''puppeteer'', JString ''^1.0''), (''left-pad'', JString ''^1.0''),
                (''sharp'', JString ''^1'')] =
     [''puppeteer'', ''left-pad'', ''sharp'']"
  by code_simp

lemma sharp_entry: "map_of heavyPackagesList ''sharp'' = Some (7, ''Image Processing'')"
  by code_simp

lemma keys_one_more:
  "set (Object_keys [(''puppeteer'', JString ''^1.0''), (''left-pad'', JString ''^1.0''),
                     (''sharp'', JString ''^1'')]) =
   insert ''sharp''
     (set (Object_keys [(''puppeteer'', JString ''^1.0''), (''left-pad'', JString ''^1.0'')]))"
  unfolding keys_puppeteer keys_puppeteer_sharp by auto

lemma sharp_is_new:
  "''sharp'' \<notin>
     set (Object_keys [(''puppeteer'', JString ''^1.0''), (''left-pad'', JString ''^1.0'')])"
  unfolding keys_puppeteer by simp

theorem adding_catalog_dependency_witness:
  "totalWeight (execute JSON_parse_sample puppeteer_text) = Num 8 \<and>
   totalWeight (execute JSON_parse_sample puppeteer_sharp_text) = Num 15 \<and>
   hasBrowserAutomation (analysis (execute JSON_parse_sample puppeteer_text)) \<and>
   hasBrowserAutomation (analysis (execute JSON_parse_sample puppeteer_sharp_text))"
  using adding_catalog_dependency_monotone
    [OF parse_puppeteer parse_puppeteer_sharp merge_puppeteer merge_puppeteer_sharp
        keys_one_more sharp_is_new sharp_entry]
  by (simp add: puppeteer_report)

end
